theory Spec2Isabelle
  imports Main "HOL-Library.AList"
begin

section \<open>The MongoDB URL service (mongo\_service.py)\<close>

text \<open>
  The service is a handful of FastAPI handlers over one MongoDB collection. The handlers
  are embedded as functions of the module globals (the three handles set by
  \<open>connect_to_mongodb\<close>) and of the database the handles point to. Python \<open>str\<close>
  values are byte strings here (UTF-8), so the accented letters of the Spanish messages
  are two bytes each. Logging and printing are left out: they produce no value and touch
  neither the globals nor the database.
\<close>

subsection \<open>Values, documents, exceptions\<close>

text \<open>
  The scalar values a document field can hold. Nested documents and floating-point
  numbers are not modelled.
\<close>

datatype bson = Str string | Integer int | ObjectId string | Bool bool | Null

type_synonym document = "(string \<times> bson) list"

text \<open>A Python value inside a response: a scalar, or a dictionary of such values.\<close>

datatype pyval = Val bson | Dict "(string \<times> pyval) list"

text \<open>
  \<open>Fmt p e\<close> is the f-string made of the prefix \<open>p\<close> followed by \<open>str(e)\<close>; how an
  exception prints is left to the library.
\<close>

datatype exn = HTTPException nat detail | KeyError string | PyMongoError
  and detail = Text string | Fmt string exn

record UrlResponse =
  success :: bool
  data :: "(string \<times> pyval) list option"
  message :: string

record UrlUpdate =
  uri :: string

definition DATABASE_NAME :: string where
  "DATABASE_NAME = ''ngrok''"

definition COLLECTION_NAME :: string where
  "COLLECTION_NAME = ''url''"

definition o_acute :: string where
  "o_acute = [CHR 0xC3, CHR 0xB3]"

definition u_acute :: string where
  "u_acute = [CHR 0xC3, CHR 0xBA]"

subsection \<open>Python builtins used by the handlers\<close>

fun str_nat :: "nat \<Rightarrow> string" where
  "str_nat n =
     (if n < 10 then [''0123456789'' ! n]
      else str_nat (n div 10) @ [''0123456789'' ! (n mod 10)])"

declare str_nat.simps [simp del]

definition str_int :: "int \<Rightarrow> string" where
  "str_int i = (if i < 0 then ''-'' @ str_nat (nat (- i)) else str_nat (nat i))"

text \<open>\<open>str(v)\<close>; the string form of an \<open>ObjectId\<close> is its hexadecimal text.\<close>

fun str_bson :: "bson \<Rightarrow> string" where
  "str_bson (Str s) = s"
| "str_bson (Integer i) = str_int i"
| "str_bson (ObjectId h) = h"
| "str_bson (Bool b) = (if b then ''True'' else ''False'')"
| "str_bson Null = ''None''"

text \<open>\<open>d[k]\<close> raises \<open>KeyError\<close> on a missing key; \<open>d.get(k, dflt)\<close> does not.\<close>

definition getitem :: "document \<Rightarrow> string \<Rightarrow> exn + bson" where
  "getitem d k = (case map_of d k of None \<Rightarrow> Inl (KeyError k) | Some v \<Rightarrow> Inr v)"

definition dict_get :: "document \<Rightarrow> string \<Rightarrow> bson \<Rightarrow> bson" where
  "dict_get d k dflt = (case map_of d k of None \<Rightarrow> dflt | Some v \<Rightarrow> v)"

subsection \<open>The database behind the handles\<close>

text \<open>
  The collection is the list of its documents in natural order. \<open>reachable\<close> says
  whether the server answers; when it does not, every call raises. The calls are the ones
  the handlers make: \<open>admin.command('ping')\<close>, \<open>find_one()\<close>,
  \<open>find_one({"_id": i})\<close>, \<open>update_one({"_id": i}, {"$set": {k: v}})\<close> and
  \<open>count_documents({})\<close>. An update that leaves the matched document as it was is
  reported with \<open>modified_count = 0\<close>, as MongoDB does.
\<close>

record store =
  docs :: "document list"
  reachable :: bool

record UpdateResult =
  matched_count :: nat
  modified_count :: nat

definition ping :: "store \<Rightarrow> exn + unit" where
  "ping s = (if reachable s then Inr () else Inl PyMongoError)"

definition find_one :: "store \<Rightarrow> exn + document option" where
  "find_one s =
     (if reachable s then Inr (case docs s of [] \<Rightarrow> None | d # _ \<Rightarrow> Some d)
      else Inl PyMongoError)"

definition find_one_by_id :: "bson \<Rightarrow> store \<Rightarrow> exn + document option" where
  "find_one_by_id i s =
     (if reachable s then Inr (find (\<lambda>d. map_of d ''_id'' = Some i) (docs s))
      else Inl PyMongoError)"

fun update_first :: "bson \<Rightarrow> string \<Rightarrow> bson \<Rightarrow> document list \<Rightarrow> document list \<times> UpdateResult" where
  "update_first i k v [] = ([], \<lparr>matched_count = 0, modified_count = 0\<rparr>)"
| "update_first i k v (d # ds) =
     (if map_of d ''_id'' = Some i then
        (if map_of d k = Some v then (d # ds, \<lparr>matched_count = 1, modified_count = 0\<rparr>)
         else (AList.update k v d # ds, \<lparr>matched_count = 1, modified_count = 1\<rparr>))
      else (case update_first i k v ds of (ds', r) \<Rightarrow> (d # ds', r)))"

definition update_one :: "bson \<Rightarrow> string \<Rightarrow> bson \<Rightarrow> store \<Rightarrow> exn + (UpdateResult \<times> store)" where
  "update_one i k v s =
     (if reachable s then
        (case update_first i k v (docs s) of (ds', r) \<Rightarrow> Inr (r, s\<lparr>docs := ds'\<rparr>))
      else Inl PyMongoError)"

definition count_documents :: "store \<Rightarrow> exn + nat" where
  "count_documents s = (if reachable s then Inr (length (docs s)) else Inl PyMongoError)"

subsection \<open>Module globals and the connection\<close>

datatype handle = Client | Database string | Collection string string

record globals =
  mongo_client :: "handle option"
  database :: "handle option"
  collection :: "handle option"

text \<open>The module starts with the three handles set to \<open>None\<close>.\<close>

definition initial_globals :: globals where
  "initial_globals = \<lparr>mongo_client = None, database = None, collection = None\<rparr>"

text \<open>
  \<open>connect_to_mongodb\<close>: \<open>valid\<close> says whether \<open>MongoClient\<close> accepts the connection
  string; when it raises, no global is assigned. The handles are assigned before the ping,
  so they stay set when the ping fails.
\<close>

definition connect_to_mongodb :: "bool \<Rightarrow> store \<Rightarrow> globals \<Rightarrow> bool \<times> globals" where
  "connect_to_mongodb valid s g =
     (if valid then
        (let g' = \<lparr>mongo_client = Some Client,
                   database = Some (Database DATABASE_NAME),
                   collection = Some (Collection DATABASE_NAME COLLECTION_NAME)\<rparr>
         in (case ping s of Inl e \<Rightarrow> (False, g') | Inr u \<Rightarrow> (True, g')))
      else (False, g))"

subsection \<open>Responses\<close>

text \<open>
  A handler returns a \<open>UrlResponse\<close> or raises; what it raises reaches FastAPI, which
  answers an \<open>HTTPException\<close> with its status code and body \<open>{"detail": ...}\<close> and any
  other exception with 500. A returned model is encoded as JSON after the handler has
  returned, outside its \<open>try\<close>: an \<open>ObjectId\<close> left in \<open>data\<close> has no JSON encoding
  and the answer is 500; otherwise the answer is 200 with the model's fields.
\<close>

fun json_encodable :: "pyval \<Rightarrow> bool" where
  "json_encodable (Val (ObjectId h)) = False"
| "json_encodable (Val v) = True"
| "json_encodable (Dict kvs) = list_all (\<lambda>kv. json_encodable (snd kv)) kvs"

definition response_encodable :: "UrlResponse \<Rightarrow> bool" where
  "response_encodable r =
     (case data r of
        None \<Rightarrow> True
      | Some d \<Rightarrow> list_all (\<lambda>kv. json_encodable (snd kv)) d)"

definition http_status :: "exn + UrlResponse \<Rightarrow> nat" where
  "http_status res =
     (case res of
        Inl (HTTPException c d) \<Rightarrow> c
      | Inl (KeyError k) \<Rightarrow> 500
      | Inl PyMongoError \<Rightarrow> 500
      | Inr r \<Rightarrow> (if response_encodable r then 200 else 500))"

definition response_body :: "UrlResponse \<Rightarrow> (string \<times> pyval) list" where
  "response_body r =
     [(''success'', Val (Bool (success r))),
      (''data'', (case data r of None \<Rightarrow> Val Null | Some d \<Rightarrow> Dict d)),
      (''message'', Val (Str (message r)))]"

definition top_level_keys :: "exn + UrlResponse \<Rightarrow> string list" where
  "top_level_keys res =
     (case res of Inl e \<Rightarrow> [''detail''] | Inr r \<Rightarrow> map fst (response_body r))"

subsection \<open>The handlers\<close>

definition root :: UrlResponse where
  "root =
     \<lparr>success = True,
      data = Some
        [(''service'', Val (Str ''MongoDB URL Service'')),
         (''database'', Val (Str DATABASE_NAME)),
         (''collection'', Val (Str COLLECTION_NAME)),
         (''endpoints'', Dict
            [(''get_url'', Val (Str ''/api/url'')),
             (''update_url'', Val (Str ''PUT /api/url'')),
             (''health'', Val (Str ''/api/health''))])],
      message = ''Servicio funcionando correctamente''\<rparr>"

text \<open>
  Each handler is a \<open>try\<close> body and its \<open>except Exception\<close> clause. The clause
  catches whatever the body raises, the body's own \<open>HTTPException\<close> included, and raises
  a new \<open>HTTPException\<close>.
\<close>

definition health_check_body :: "globals \<Rightarrow> store \<Rightarrow> exn + UrlResponse" where
  "health_check_body g s =
     (case mongo_client g of
        None \<Rightarrow> Inl (HTTPException 503 (Text ''MongoDB no conectado''))
      | Some c \<Rightarrow>
          (case ping s of
             Inl e \<Rightarrow> Inl e
           | Inr u \<Rightarrow>
               Inr \<lparr>success = True,
                    data = Some [(''status'', Val (Str ''healthy'')),
                                 (''database'', Val (Str DATABASE_NAME))],
                    message = ''Conexi'' @ o_acute @ ''n a MongoDB OK''\<rparr>))"

definition health_check :: "globals \<Rightarrow> store \<Rightarrow> exn + UrlResponse" where
  "health_check g s =
     (case health_check_body g s of
        Inl e \<Rightarrow> Inl (HTTPException 503 (Fmt (''Error de conexi'' @ o_acute @ ''n: '') e))
      | Inr r \<Rightarrow> Inr r)"

definition get_url_record_body :: "globals \<Rightarrow> store \<Rightarrow> exn + UrlResponse" where
  "get_url_record_body g s =
     (case collection g of
        None \<Rightarrow> Inl (HTTPException 503 (Text ''MongoDB no conectado''))
      | Some c \<Rightarrow>
          (case find_one s of
             Inl e \<Rightarrow> Inl e
           | Inr None \<Rightarrow>
               Inr \<lparr>success = False, data = None,
                    message = ''No se encontr'' @ o_acute @ '' ning'' @ u_acute
                      @ ''n registro en la colecci'' @ o_acute @ ''n''\<rparr>
           | Inr (Some record) \<Rightarrow>
               (let uri_value = dict_get record ''uri'' (Str ''No encontrado'')
                in Inr \<lparr>success = True, data = Some [(''uri'', Val uri_value)],
                        message = ''Valor de URI obtenido exitosamente''\<rparr>)))"

definition get_url_record :: "globals \<Rightarrow> store \<Rightarrow> exn + UrlResponse" where
  "get_url_record g s =
     (case get_url_record_body g s of
        Inl e \<Rightarrow> Inl (HTTPException 500 (Fmt ''Error interno: '' e))
      | Inr r \<Rightarrow> Inr r)"

text \<open>
  \<open>update_url_record\<close> makes three calls to the database, which other clients share:
  \<open>w1\<close> is what they write between the first read and the update, \<open>w2\<close> what they
  write between the update and the second read. The second read is bound to
  \<open>updated_record\<close>, which the handler does not use afterwards.
\<close>

definition update_url_record_body ::
    "(store \<Rightarrow> store) \<Rightarrow> (store \<Rightarrow> store) \<Rightarrow> globals \<Rightarrow> UrlUpdate \<Rightarrow> store
      \<Rightarrow> (exn + UrlResponse) \<times> store" where
  "update_url_record_body w1 w2 g url_data s =
     (case collection g of
        None \<Rightarrow> (Inl (HTTPException 503 (Text ''MongoDB no conectado'')), s)
      | Some c \<Rightarrow>
          (case find_one s of
             Inl e \<Rightarrow> (Inl e, s)
           | Inr None \<Rightarrow>
               (Inr \<lparr>success = False, data = None,
                     message = ''No se encontr'' @ o_acute @ '' ning'' @ u_acute
                       @ ''n registro para actualizar''\<rparr>, s)
           | Inr (Some existing_record) \<Rightarrow>
               (case getitem existing_record ''_id'' of
                  Inl e \<Rightarrow> (Inl e, w1 s)
                | Inr rid \<Rightarrow>
                    (case update_one rid ''uri'' (Str (uri url_data)) (w1 s) of
                       Inl e \<Rightarrow> (Inl e, w1 s)
                     | Inr (result, s') \<Rightarrow>
                         (if modified_count result > 0 then
                            (case find_one_by_id rid (w2 s') of
                               Inl e \<Rightarrow> (Inl e, w2 s')
                             | Inr updated_record \<Rightarrow>
                                 (Inr \<lparr>success = True,
                                       data = Some
                                         [(''uri'', Val (Str (uri url_data))),
                                          (''previous_uri'',
                                             Val (dict_get existing_record ''uri'' (Str ''N/A''))),
                                          (''_id'', Val (Str (str_bson rid)))],
                                       message = ''URI actualizada exitosamente''\<rparr>, w2 s'))
                          else
                            (Inr \<lparr>success = False, data = None,
                                  message = ''No se pudo actualizar el registro''\<rparr>, s'))))))"

definition update_url_record_among ::
    "(store \<Rightarrow> store) \<Rightarrow> (store \<Rightarrow> store) \<Rightarrow> globals \<Rightarrow> UrlUpdate \<Rightarrow> store
      \<Rightarrow> (exn + UrlResponse) \<times> store" where
  "update_url_record_among w1 w2 g url_data s =
     (case update_url_record_body w1 w2 g url_data s of
        (Inl e, s') \<Rightarrow> (Inl (HTTPException 500 (Fmt ''Error interno: '' e)), s')
      | (Inr r, s') \<Rightarrow> (Inr r, s'))"

text \<open>The handler when no other client writes while it runs.\<close>

definition no_writes :: "store \<Rightarrow> store" where
  "no_writes s = s"

definition update_url_record :: "globals \<Rightarrow> UrlUpdate \<Rightarrow> store \<Rightarrow> (exn + UrlResponse) \<times> store" where
  "update_url_record g url_data s = update_url_record_among no_writes no_writes g url_data s"

definition get_url_count_body :: "globals \<Rightarrow> store \<Rightarrow> exn + UrlResponse" where
  "get_url_count_body g s =
     (case collection g of
        None \<Rightarrow> Inl (HTTPException 503 (Text ''MongoDB no conectado''))
      | Some c \<Rightarrow>
          (case count_documents s of
             Inl e \<Rightarrow> Inl e
           | Inr count \<Rightarrow>
               Inr \<lparr>success = True, data = Some [(''count'', Val (Integer (int count)))],
                    message = ''La colecci'' @ o_acute @ ''n tiene '' @ str_int (int count)
                      @ '' registro(s)''\<rparr>))"

definition get_url_count :: "globals \<Rightarrow> store \<Rightarrow> exn + UrlResponse" where
  "get_url_count g s =
     (case get_url_count_body g s of
        Inl e \<Rightarrow> Inl (HTTPException 500 (Fmt ''Error interno: '' e))
      | Inr r \<Rightarrow> Inr r)"

text \<open>One request against the service: the response and the database afterwards.\<close>

datatype request = GetRoot | GetHealth | GetUrl | PutUrl UrlUpdate | GetUrlCount

fun handle_request :: "globals \<Rightarrow> request \<Rightarrow> store \<Rightarrow> (exn + UrlResponse) \<times> store" where
  "handle_request g GetRoot s = (Inr root, s)"
| "handle_request g GetHealth s = (health_check g s, s)"
| "handle_request g GetUrl s = (get_url_record g s, s)"
| "handle_request g (PutUrl url_data) s = update_url_record g url_data s"
| "handle_request g GetUrlCount s = (get_url_count g s, s)"

subsection \<open>Example states\<close>

definition connected :: globals where
  "connected =
     \<lparr>mongo_client = Some Client,
      database = Some (Database DATABASE_NAME),
      collection = Some (Collection DATABASE_NAME COLLECTION_NAME)\<rparr>"

definition record_A :: document where
  "record_A = [(''_id'', ObjectId ''65f0c0ffee0123456789abcd''), (''uri'', Str ''A''), (''note'', Str ''keep'')]"

definition record_no_uri :: document where
  "record_no_uri = [(''_id'', Integer 7), (''owner'', Str ''ops'')]"

definition store_A :: store where
  "store_A = \<lparr>docs = [record_A, record_no_uri], reachable = True\<rparr>"

definition store_no_uri :: store where
  "store_no_uri = \<lparr>docs = [record_no_uri], reachable = True\<rparr>"

definition store_empty :: store where
  "store_empty = \<lparr>docs = [], reachable = True\<rparr>"


section \<open>Properties\<close>

subsection \<open>The connection and the database calls\<close>

lemma connected_collection: "collection connected \<noteq> None"
  by (simp add: connected_def)

text \<open>
  A connection string that \<open>MongoClient\<close> rejects leaves the module as it started: no
  handle is set.
\<close>

lemma connect_rejected_keeps_globals:
  "connect_to_mongodb False s initial_globals = (False, initial_globals)"
  by (simp add: connect_to_mongodb_def)

lemma connect_sets_handles_before_ping:
  "collection (snd (connect_to_mongodb True s g)) \<noteq> None
   \<and> fst (connect_to_mongodb True s g) = reachable s"
  by (simp add: connect_to_mongodb_def ping_def)


text \<open>The sequential handler either leaves the documents alone or rewrites the first.\<close>

lemma update_url_record_docs:
  "docs (snd (update_url_record g u s)) = docs s
   \<or> (\<exists>d ds. docs s = d # ds
        \<and> docs (snd (update_url_record g u s)) = AList.update ''uri'' (Str (uri u)) d # ds)"
  by (auto simp: update_url_record_def update_url_record_among_def update_url_record_body_def
      find_one_def find_one_by_id_def getitem_def update_one_def no_writes_def
      split: if_splits list.splits option.splits sum.splits prod.splits)

text \<open>
  The status of a returned envelope: 200 for a record whose \<open>uri\<close> is a string, 500 for
  one whose \<open>uri\<close> is an \<open>ObjectId\<close>, which the handler returns but FastAPI cannot
  encode.
\<close>

lemma http_status_of_returned_envelopes:
  "http_status (get_url_record connected store_A) = 200
   \<and> http_status (get_url_record connected
         \<lparr>docs = [[(''_id'', Integer 1), (''uri'', ObjectId ''65f0c0ffee0123456789abcd'')]],
          reachable = True\<rparr>) = 500"
  by (simp add: http_status_def response_encodable_def get_url_record_def
      get_url_record_body_def find_one_def dict_get_def connected_def store_A_def record_A_def)

subsection \<open>No connection\<close>

text \<open>
  C1. With no connection established (the client handle and the collection handle are
  \<open>None\<close>), \<open>GET /api/health\<close> answers 503. \<open>GET /api/url\<close> and \<open>PUT /api/url\<close>
  raise the 503 inside their \<open>try\<close> body, the \<open>except Exception\<close> clause catches
  it, and the answer is 500 with the 503 exception quoted in the detail; the database is
  not touched.
\<close>

theorem not_connected_status:
  assumes "mongo_client g = None" and "collection g = None"
  shows "http_status (health_check g s) = 503
    \<and> get_url_record g s =
        Inl (HTTPException 500
              (Fmt ''Error interno: '' (HTTPException 503 (Text ''MongoDB no conectado''))))
    \<and> http_status (get_url_record g s) = 500
    \<and> update_url_record g u s =
        (Inl (HTTPException 500
               (Fmt ''Error interno: '' (HTTPException 503 (Text ''MongoDB no conectado'')))), s)
    \<and> http_status (fst (update_url_record g u s)) = 500"
  using assms
  by (simp add: http_status_def health_check_def health_check_body_def get_url_record_def
      get_url_record_body_def update_url_record_def update_url_record_among_def
      update_url_record_body_def)

theorem not_connected_status_witness:
  "mongo_client initial_globals = None \<and> collection initial_globals = None
   \<and> http_status (health_check initial_globals store_A) = 503
   \<and> http_status (get_url_record initial_globals store_A) = 500
   \<and> http_status (fst (update_url_record initial_globals \<lparr>uri = ''B''\<rparr> store_A)) = 500"
proof -
  have h1: "mongo_client initial_globals = None" by (simp add: initial_globals_def)
  have h2: "collection initial_globals = None" by (simp add: initial_globals_def)
  from not_connected_status [OF h1 h2, of store_A "\<lparr>uri = ''B''\<rparr>"] h1 h2
  show ?thesis by (simp add: http_status_def)
qed

subsection \<open>Reading the record\<close>

text \<open>
  C5, as the code has it. For every \<open>GET /api/url\<close> on a connected, answering database whose collection has
  a first record, the response is \<open>success = true\<close> with \<open>data = {uri: v}\<close>, where
  \<open>v\<close> is the record's \<open>uri\<close> field, or the placeholder string \<open>No encontrado\<close>
  (the literal of the code, in Spanish) when the record has no such field; this is not a
  failure.
\<close>

theorem get_url_record_found:
  assumes "collection g \<noteq> None" and "reachable s" and "docs s = d # ds"
  shows "get_url_record g s =
      Inr \<lparr>success = True,
           data = Some [(''uri'',
                    Val (case map_of d ''uri'' of None \<Rightarrow> Str ''No encontrado'' | Some v \<Rightarrow> v))],
           message = ''Valor de URI obtenido exitosamente''\<rparr>"
  using assms
  by (auto simp: get_url_record_def get_url_record_body_def find_one_def dict_get_def)

theorem get_url_record_found_witness:
  "collection connected \<noteq> None \<and> reachable store_A \<and> docs store_A = record_A # [record_no_uri]
   \<and> get_url_record connected store_A =
      Inr \<lparr>success = True, data = Some [(''uri'', Val (Str ''A''))],
           message = ''Valor de URI obtenido exitosamente''\<rparr>
   \<and> reachable store_no_uri \<and> docs store_no_uri = record_no_uri # []
   \<and> get_url_record connected store_no_uri =
      Inr \<lparr>success = True, data = Some [(''uri'', Val (Str ''No encontrado''))],
           message = ''Valor de URI obtenido exitosamente''\<rparr>"
proof -
  have c: "collection connected \<noteq> None" by (simp add: connected_def)
  have a1: "reachable store_A" and a2: "docs store_A = record_A # [record_no_uri]"
    by (simp_all add: store_A_def)
  have b1: "reachable store_no_uri" and b2: "docs store_no_uri = record_no_uri # []"
    by (simp_all add: store_no_uri_def)
  from get_url_record_found [OF c a1 a2] get_url_record_found [OF c b1 b2] c a1 a2 b1 b2
  show ?thesis by (simp add: record_A_def record_no_uri_def)
qed

text \<open>
  A record without a \<open>uri\<close> field: the value returned is the string \<open>No encontrado\<close>,
  not the string \<open>not found\<close>.
\<close>

theorem get_url_record_placeholder_literal:
  "map_of record_no_uri ''uri'' = None
   \<and> get_url_record connected store_no_uri =
      Inr \<lparr>success = True, data = Some [(''uri'', Val (Str ''No encontrado''))],
           message = ''Valor de URI obtenido exitosamente''\<rparr>
   \<and> get_url_record connected store_no_uri \<noteq>
      Inr \<lparr>success = True, data = Some [(''uri'', Val (Str ''not found''))],
           message = ''Valor de URI obtenido exitosamente''\<rparr>"
  by (simp add: get_url_record_def get_url_record_body_def find_one_def dict_get_def
      connected_def store_no_uri_def record_no_uri_def)

text \<open>
  C6. For every \<open>GET /api/url\<close> on a connected, answering database whose collection is
  empty, the response has status 200 and the envelope \<open>success = false\<close>,
  \<open>data = null\<close>, with the message that no record was found in the collection.
\<close>

theorem get_url_record_empty:
  assumes "collection g \<noteq> None" and "reachable s" and "docs s = []"
  shows "get_url_record g s =
      Inr \<lparr>success = False, data = None,
           message = ''No se encontr'' @ o_acute @ '' ning'' @ u_acute
                      @ ''n registro en la colecci'' @ o_acute @ ''n''\<rparr>
    \<and> http_status (get_url_record g s) = 200"
  using assms
  by (auto simp: get_url_record_def get_url_record_body_def find_one_def http_status_def
      response_encodable_def)

theorem get_url_record_empty_witness:
  "collection connected \<noteq> None \<and> reachable store_empty \<and> docs store_empty = []
   \<and> success (projr (get_url_record connected store_empty)) = False
   \<and> data (projr (get_url_record connected store_empty)) = None
   \<and> http_status (get_url_record connected store_empty) = 200"
proof -
  have c: "collection connected \<noteq> None" by (simp add: connected_def)
  have e1: "reachable store_empty" and e2: "docs store_empty = []"
    by (simp_all add: store_empty_def)
  from get_url_record_empty [OF c e1 e2] c e1 e2 show ?thesis
    by (simp add: http_status_def response_encodable_def)
qed

subsection \<open>Counting\<close>

text \<open>
  C7, as the code has it. For every \<open>GET /api/url/count\<close> on a connected, answering
  database whose collection holds \<open>N\<close> documents, the response is the envelope with
  \<open>success = true\<close>, \<open>data = {count: N}\<close> and a message with \<open>N\<close> in decimal in it.
  The top-level fields of the response are \<open>success\<close>, \<open>data\<close> and \<open>message\<close> and
  no other: the count is inside \<open>data\<close> only.
\<close>

theorem get_url_count_envelope:
  assumes "collection g \<noteq> None" and "reachable s"
  shows "get_url_count g s =
      Inr \<lparr>success = True, data = Some [(''count'', Val (Integer (int (length (docs s)))))],
           message = ''La colecci'' @ o_acute @ ''n tiene '' @ str_int (int (length (docs s)))
                      @ '' registro(s)''\<rparr>
    \<and> top_level_keys (get_url_count g s) = [''success'', ''data'', ''message'']"
  using assms
  by (auto simp: get_url_count_def get_url_count_body_def count_documents_def
      top_level_keys_def response_body_def)

theorem get_url_count_envelope_witness:
  "collection connected \<noteq> None \<and> reachable store_A
   \<and> get_url_count connected store_A =
      Inr \<lparr>success = True, data = Some [(''count'', Val (Integer 2))],
           message = ''La colecci'' @ o_acute @ ''n tiene 2 registro(s)''\<rparr>
   \<and> top_level_keys (get_url_count connected store_A) = [''success'', ''data'', ''message'']"
proof -
  have c: "collection connected \<noteq> None" by (simp add: connected_def)
  have a: "reachable store_A" by (simp add: store_A_def)
  have n: "docs store_A = [record_A, record_no_uri]" by (simp add: store_A_def)
  from get_url_count_envelope [OF c a] c a show ?thesis
    by (simp add: n str_int_def str_nat.simps [of 2] top_level_keys_def response_body_def)
qed

text \<open>
  The count of a two-document collection is returned inside \<open>data\<close>, and \<open>count\<close> is
  not among the top-level fields of the response.
\<close>

theorem get_url_count_no_bare_count:
  "get_url_count connected store_A =
      Inr \<lparr>success = True, data = Some [(''count'', Val (Integer 2))],
           message = ''La colecci'' @ o_acute @ ''n tiene 2 registro(s)''\<rparr>
   \<and> ''count'' \<notin> set (top_level_keys (get_url_count connected store_A))"
  by (simp add: get_url_count_def get_url_count_body_def count_documents_def
      top_level_keys_def response_body_def connected_def store_A_def str_int_def
      str_nat.simps [of 2])

subsection \<open>Updating the record\<close>

text \<open>
  C3. For every \<open>PUT /api/url\<close> on a connected, answering database whose body carries
  the \<open>uri\<close> value the first record already holds, the update reports zero modified
  documents and the response is a normal (200) envelope with \<open>success = false\<close>,
  \<open>data = null\<close> and the message that the record could not be updated; the database is
  as before.
\<close>

theorem put_same_value_reports_failure:
  assumes "collection g \<noteq> None" and "reachable s" and "docs s = d # ds"
    and "map_of d ''_id'' = Some i" and "map_of d ''uri'' = Some (Str (uri u))"
  shows "update_one i ''uri'' (Str (uri u)) s =
        Inr (\<lparr>matched_count = 1, modified_count = 0\<rparr>, s)
    \<and> update_url_record g u s =
        (Inr \<lparr>success = False, data = None,
              message = ''No se pudo actualizar el registro''\<rparr>, s)
    \<and> http_status (fst (update_url_record g u s)) = 200"
  using assms
  by (auto simp: update_url_record_def update_url_record_among_def update_url_record_body_def
      find_one_def getitem_def update_one_def no_writes_def http_status_def
      response_encodable_def)

theorem put_same_value_reports_failure_witness:
  "collection connected \<noteq> None \<and> reachable store_A \<and> docs store_A = record_A # [record_no_uri]
   \<and> map_of record_A ''_id'' = Some (ObjectId ''65f0c0ffee0123456789abcd'')
   \<and> map_of record_A ''uri'' = Some (Str (uri \<lparr>uri = ''A''\<rparr>))
   \<and> update_url_record connected \<lparr>uri = ''A''\<rparr> store_A =
        (Inr \<lparr>success = False, data = None,
              message = ''No se pudo actualizar el registro''\<rparr>, store_A)"
proof -
  have c: "collection connected \<noteq> None" by (simp add: connected_def)
  have a1: "reachable store_A" and a2: "docs store_A = record_A # [record_no_uri]"
    by (simp_all add: store_A_def)
  have a3: "map_of record_A ''_id'' = Some (ObjectId ''65f0c0ffee0123456789abcd'')"
    by (simp add: record_A_def)
  have a4: "map_of record_A ''uri'' = Some (Str (uri \<lparr>uri = ''A''\<rparr>))"
    by (simp add: record_A_def)
  from put_same_value_reports_failure [OF c a1 a2 a3 a4] c a1 a2 a3 a4
  show ?thesis by simp
qed

text \<open>
  C4. For every \<open>PUT /api/url\<close> with body \<open>{uri: newUri}\<close> on a connected database
  where a first record exists and the update reports at least one modified document, the
  response is \<open>success = true\<close> with \<open>data = {uri: newUri, previous_uri: p, _id: t}\<close>,
  where \<open>p\<close> is the record's \<open>uri\<close> before the update, or \<open>N/A\<close> if it had none,
  and \<open>t\<close> is the string form of the record's identifier; afterwards the first record
  of the collection has that identifier and \<open>uri = newUri\<close>.
\<close>

theorem put_success_response:
  assumes "collection g \<noteq> None" and "find_one s = Inr (Some d)"
    and "map_of d ''_id'' = Some i"
    and "update_one i ''uri'' (Str (uri u)) s = Inr (res, s')" and "modified_count res > 0"
  shows "update_url_record g u s =
        (Inr \<lparr>success = True,
              data = Some [(''uri'', Val (Str (uri u))),
                           (''previous_uri'',
                              Val (case map_of d ''uri'' of None \<Rightarrow> Str ''N/A'' | Some v \<Rightarrow> v)),
                           (''_id'', Val (Str (str_bson i)))],
              message = ''URI actualizada exitosamente''\<rparr>, s')
    \<and> (\<exists>d'. find_one s' = Inr (Some d') \<and> map_of d' ''_id'' = Some i
          \<and> map_of d' ''uri'' = Some (Str (uri u)))"
  using assms
  by (auto simp: update_url_record_def update_url_record_among_def update_url_record_body_def
      find_one_def find_one_by_id_def getitem_def update_one_def no_writes_def dict_get_def
      update_conv' split: if_splits list.splits)

theorem put_success_response_witness:
  "collection connected \<noteq> None \<and> find_one store_A = Inr (Some record_A)
   \<and> map_of record_A ''_id'' = Some (ObjectId ''65f0c0ffee0123456789abcd'')
   \<and> update_one (ObjectId ''65f0c0ffee0123456789abcd'') ''uri'' (Str (uri \<lparr>uri = ''B''\<rparr>)) store_A =
        Inr (\<lparr>matched_count = 1, modified_count = 1\<rparr>,
             \<lparr>docs = [[(''_id'', ObjectId ''65f0c0ffee0123456789abcd''), (''uri'', Str ''B''),
                       (''note'', Str ''keep'')], record_no_uri],
              reachable = True\<rparr>)
   \<and> update_url_record connected \<lparr>uri = ''B''\<rparr> store_A =
        (Inr \<lparr>success = True,
              data = Some [(''uri'', Val (Str ''B'')), (''previous_uri'', Val (Str ''A'')),
                           (''_id'', Val (Str ''65f0c0ffee0123456789abcd''))],
              message = ''URI actualizada exitosamente''\<rparr>,
         \<lparr>docs = [[(''_id'', ObjectId ''65f0c0ffee0123456789abcd''), (''uri'', Str ''B''),
                   (''note'', Str ''keep'')], record_no_uri],
          reachable = True\<rparr>)"
proof -
  have c: "collection connected \<noteq> None" by (simp add: connected_def)
  have a1: "find_one store_A = Inr (Some record_A)"
    by (simp add: find_one_def store_A_def)
  have a2: "map_of record_A ''_id'' = Some (ObjectId ''65f0c0ffee0123456789abcd'')"
    by (simp add: record_A_def)
  have a3: "update_one (ObjectId ''65f0c0ffee0123456789abcd'') ''uri'' (Str (uri \<lparr>uri = ''B''\<rparr>)) store_A =
        Inr (\<lparr>matched_count = 1, modified_count = 1\<rparr>,
             \<lparr>docs = [[(''_id'', ObjectId ''65f0c0ffee0123456789abcd''), (''uri'', Str ''B''),
                       (''note'', Str ''keep'')], record_no_uri],
              reachable = True\<rparr>)"
    by (simp add: update_one_def store_A_def record_A_def)
  have a4: "modified_count \<lparr>matched_count = 1, modified_count = 1\<rparr> > 0" by simp
  from put_success_response [OF c a1 a2 a3 a4] c a1 a2 a3
  show ?thesis by (simp add: record_A_def)
qed

text \<open>
  C2. Round trip: for every string \<open>V\<close>, if the collection holds at least one record and
  \<open>PUT /api/url\<close> with body \<open>{uri: V}\<close> succeeds, then a \<open>GET /api/url\<close> on the
  database the update left, with no write in between, returns \<open>success = true\<close> with
  \<open>data = {uri: V}\<close>.
\<close>

theorem put_then_get_round_trip:
  assumes "docs s \<noteq> []" and "update_url_record g u s = (Inr r, s')" and "success r"
  shows "get_url_record g s' =
      Inr \<lparr>success = True, data = Some [(''uri'', Val (Str (uri u)))],
           message = ''Valor de URI obtenido exitosamente''\<rparr>"
  using assms
  by (auto simp: update_url_record_def update_url_record_among_def update_url_record_body_def
      find_one_def find_one_by_id_def getitem_def update_one_def no_writes_def dict_get_def
      update_conv' get_url_record_def get_url_record_body_def
      split: if_splits list.splits option.splits sum.splits)

theorem put_then_get_round_trip_witness:
  "docs store_no_uri \<noteq> []
   \<and> update_url_record connected \<lparr>uri = ''a b?c=d&e#f''\<rparr> store_no_uri =
       (Inr \<lparr>success = True,
             data = Some [(''uri'', Val (Str ''a b?c=d&e#f'')), (''previous_uri'', Val (Str ''N/A'')),
                          (''_id'', Val (Str ''7''))],
             message = ''URI actualizada exitosamente''\<rparr>,
        \<lparr>docs = [[(''_id'', Integer 7), (''owner'', Str ''ops''), (''uri'', Str ''a b?c=d&e#f'')]],
         reachable = True\<rparr>)
   \<and> get_url_record connected
        \<lparr>docs = [[(''_id'', Integer 7), (''owner'', Str ''ops''), (''uri'', Str ''a b?c=d&e#f'')]],
         reachable = True\<rparr> =
      Inr \<lparr>success = True, data = Some [(''uri'', Val (Str ''a b?c=d&e#f''))],
           message = ''Valor de URI obtenido exitosamente''\<rparr>"
proof -
  have h1: "docs store_no_uri \<noteq> []" by (simp add: store_no_uri_def)
  have h2: "update_url_record connected \<lparr>uri = ''a b?c=d&e#f''\<rparr> store_no_uri =
       (Inr \<lparr>success = True,
             data = Some [(''uri'', Val (Str ''a b?c=d&e#f'')), (''previous_uri'', Val (Str ''N/A'')),
                          (''_id'', Val (Str ''7''))],
             message = ''URI actualizada exitosamente''\<rparr>,
        \<lparr>docs = [[(''_id'', Integer 7), (''owner'', Str ''ops''), (''uri'', Str ''a b?c=d&e#f'')]],
         reachable = True\<rparr>)"
    by (simp add: update_url_record_def update_url_record_among_def update_url_record_body_def
        find_one_def find_one_by_id_def getitem_def update_one_def no_writes_def dict_get_def
        connected_def store_no_uri_def record_no_uri_def str_int_def str_nat.simps [of 7])
  from put_then_get_round_trip [OF h1 h2] h1 h2 show ?thesis by simp
qed




subsection \<open>What no request does\<close>

text \<open>
  C8. No request creates a record: after every request the collection has as many
  documents as before. A \<open>PUT /api/url\<close> changes at most the \<open>uri\<close> field of the first
  document: with the \<open>uri\<close> entries taken out, every document is as it was, and every
  document after the first is unchanged. On a connected, answering database with an empty
  collection the update returns \<open>success = false\<close> and the collection stays empty.
\<close>

theorem requests_never_create_records:
  "map (AList.delete ''uri'') (docs (snd (handle_request g rq s)))
     = map (AList.delete ''uri'') (docs s)
   \<and> drop 1 (docs (snd (handle_request g rq s))) = drop 1 (docs s)
   \<and> length (docs (snd (handle_request g rq s))) = length (docs s)
   \<and> (collection g \<noteq> None \<and> reachable s \<and> docs s = [] \<longrightarrow>
        handle_request g (PutUrl u) s =
          (Inr \<lparr>success = False, data = None,
                message = ''No se encontr'' @ o_acute @ '' ning'' @ u_acute
                       @ ''n registro para actualizar''\<rparr>, s))"
proof -
  have a: "map (AList.delete ''uri'') (docs (snd (handle_request g rq s)))
     = map (AList.delete ''uri'') (docs s)
   \<and> drop 1 (docs (snd (handle_request g rq s))) = drop 1 (docs s)
   \<and> length (docs (snd (handle_request g rq s))) = length (docs s)"
  proof (cases rq)
    case (PutUrl w)
    from update_url_record_docs [of g w s] show ?thesis
      unfolding PutUrl by (auto simp: delete_update_same)
  qed simp_all
  have b: "collection g \<noteq> None \<and> reachable s \<and> docs s = [] \<longrightarrow>
        handle_request g (PutUrl u) s =
          (Inr \<lparr>success = False, data = None,
                message = ''No se encontr'' @ o_acute @ '' ning'' @ u_acute
                       @ ''n registro para actualizar''\<rparr>, s)"
    by (auto simp: update_url_record_def update_url_record_among_def update_url_record_body_def
      find_one_def)
  from a b show ?thesis by blast
qed

theorem requests_never_create_records_witness:
  "map (AList.delete ''uri'') (docs (snd (handle_request connected (PutUrl \<lparr>uri = ''B''\<rparr>) store_A)))
     = [[(''_id'', ObjectId ''65f0c0ffee0123456789abcd''), (''note'', Str ''keep'')],
        [(''_id'', Integer 7), (''owner'', Str ''ops'')]]
   \<and> drop 1 (docs (snd (handle_request connected (PutUrl \<lparr>uri = ''B''\<rparr>) store_A)))
       = [record_no_uri]
   \<and> length (docs (snd (handle_request connected (PutUrl \<lparr>uri = ''B''\<rparr>) store_A))) = 2
   \<and> collection connected \<noteq> None \<and> reachable store_empty \<and> docs store_empty = []
   \<and> handle_request connected (PutUrl \<lparr>uri = ''B''\<rparr>) store_empty =
       (Inr \<lparr>success = False, data = None,
             message = ''No se encontr'' @ o_acute @ '' ning'' @ u_acute
                    @ ''n registro para actualizar''\<rparr>, store_empty)"
proof -
  have c: "collection connected \<noteq> None" by (simp add: connected_def)
  have e1: "reachable store_empty" and e2: "docs store_empty = []"
    by (simp_all add: store_empty_def)
  have v1: "map (AList.delete ''uri'') (docs store_A)
     = [[(''_id'', ObjectId ''65f0c0ffee0123456789abcd''), (''note'', Str ''keep'')],
        [(''_id'', Integer 7), (''owner'', Str ''ops'')]]"
    by (simp add: store_A_def record_A_def record_no_uri_def)
  have v2: "drop 1 (docs store_A) = [record_no_uri]" by (simp add: store_A_def)
  have v3: "length (docs store_A) = 2" by (simp add: store_A_def)
  note t1 = requests_never_create_records [of connected "PutUrl \<lparr>uri = ''B''\<rparr>" store_A]
  note t2 = requests_never_create_records [of connected "PutUrl \<lparr>uri = ''B''\<rparr>" store_empty
      "\<lparr>uri = ''B''\<rparr>"]
  from t1 t2 c e1 e2 show ?thesis unfolding v1 v2 v3 by blast
qed

text \<open>
  C10. Every response envelope returned with \<open>success = false\<close> has \<open>data = null\<close>:
  for every request, and for an update among the writes of other clients as well.
\<close>

theorem failure_envelope_has_no_data:
  assumes "fst (handle_request g rq s) = Inr r
      \<or> fst (update_url_record_among w1 w2 g u s) = Inr r"
    and "\<not> success r"
  shows "data r = None"
proof -
  have a: "fst (update_url_record_among v1 v2 g w s) = Inr r \<Longrightarrow> data r = None" for v1 v2 w
    using assms(2)
    by (auto simp: update_url_record_among_def update_url_record_body_def
        split: option.splits sum.splits prod.splits if_splits)
  have b: "fst (handle_request g rq s) = Inr r \<Longrightarrow> data r = None"
  proof (cases rq)
    case (PutUrl w)
    assume "fst (handle_request g rq s) = Inr r"
    with a [of no_writes no_writes w] PutUrl show ?thesis
      by (simp add: update_url_record_def)
  qed (use assms(2) in \<open>auto simp: root_def health_check_def health_check_body_def
        get_url_record_def get_url_record_body_def get_url_count_def get_url_count_body_def
        split: option.splits sum.splits\<close>)
  from assms(1) a b show ?thesis by blast
qed

theorem failure_envelope_has_no_data_witness:
  "fst (handle_request connected (PutUrl \<lparr>uri = ''A''\<rparr>) store_A) =
     Inr \<lparr>success = False, data = None, message = ''No se pudo actualizar el registro''\<rparr>
   \<and> \<not> success \<lparr>success = False, data = None,
                  message = ''No se pudo actualizar el registro''\<rparr>
   \<and> data \<lparr>success = False, data = None,
            message = ''No se pudo actualizar el registro''\<rparr> = None"
proof -
  have h1: "fst (handle_request connected (PutUrl \<lparr>uri = ''A''\<rparr>) store_A) =
     Inr \<lparr>success = False, data = None, message = ''No se pudo actualizar el registro''\<rparr>"
    by (simp add: update_url_record_def update_url_record_among_def update_url_record_body_def
        connected_def store_A_def record_A_def find_one_def getitem_def update_one_def
        no_writes_def)
  have h2: "\<not> success \<lparr>success = False, data = None,
                  message = ''No se pudo actualizar el registro''\<rparr>"
    by simp
  from failure_envelope_has_no_data [OF disjI1 [OF h1] h2] h1 h2 show ?thesis by blast
qed

end
